theory Spec2Isabelle
  imports Main "HOL-Library.Word"
begin

section \<open>CHPP application layer: the datagram dispatcher of chpp/app.c\<close>

text \<open>
  The development embeds the functions of \<^verbatim>\<open>chpp/app.c\<close>. The C file mutates nothing of
  its own: everything it does is a call to a logger, to the transport layer or to a
  handler. A run is therefore modelled by the list of these calls, in program order,
  together with the undefined operation (if any) at which the run leaves the defined
  behaviour of C.
\<close>

subsection \<open>Constants of the missing headers\<close>

text \<open>
  The macros and enumerators of \<^verbatim>\<open>chpp/app.h\<close> and \<^verbatim>\<open>chpp/transport.h\<close> are used
  by the C file but declared elsewhere. They are parameters of the model. The handle
  macros and the enumerators are C integer constants, hence of type \<open>int\<close>: an
  8-bit header field is promoted to \<open>int\<close> before it is compared with them.
\<close>

record ChppConstants =
  CHPP_HANDLE_NONE :: int
  CHPP_HANDLE_LOOPBACK :: int
  CHPP_HANDLE_DISCOVERY :: int
  CHPP_HANDLE_NEGOTIATED_RANGE_START :: int
  CHPP_MESSAGE_TYPE_CLIENT_REQUEST :: int
  CHPP_MESSAGE_TYPE_SERVICE_RESPONSE :: int
  CHPP_MESSAGE_TYPE_CLIENT_NOTIFICATION :: int
  CHPP_MESSAGE_TYPE_SERVICE_NOTIFICATION :: int
  CHPP_TRANSPORT_ERROR_APPLAYER :: int
  SIZE_MAX :: nat
  sizeof_ChppAppHeader :: nat

text \<open>
  What a C compiler and the data model of the specification demand of the constants:
  the labels of one \<^verbatim>\<open>switch\<close> are pairwise distinct (otherwise the file does not
  compile), and the predefined handles lie below the negotiated range.
\<close>

definition constants_ok :: "ChppConstants \<Rightarrow> bool" where
  "constants_ok K \<longleftrightarrow>
     distinct [CHPP_HANDLE_NONE K, CHPP_HANDLE_LOOPBACK K, CHPP_HANDLE_DISCOVERY K] \<and>
     distinct [CHPP_MESSAGE_TYPE_CLIENT_REQUEST K, CHPP_MESSAGE_TYPE_SERVICE_RESPONSE K,
               CHPP_MESSAGE_TYPE_CLIENT_NOTIFICATION K,
               CHPP_MESSAGE_TYPE_SERVICE_NOTIFICATION K] \<and>
     0 \<le> CHPP_HANDLE_NONE K \<and> CHPP_HANDLE_NONE K < CHPP_HANDLE_NEGOTIATED_RANGE_START K \<and>
     0 \<le> CHPP_HANDLE_LOOPBACK K \<and>
     CHPP_HANDLE_LOOPBACK K < CHPP_HANDLE_NEGOTIATED_RANGE_START K \<and>
     0 \<le> CHPP_HANDLE_DISCOVERY K \<and>
     CHPP_HANDLE_DISCOVERY K < CHPP_HANDLE_NEGOTIATED_RANGE_START K"

text \<open>
  One choice of values that meets these demands, with a 32-bit \<^verbatim>\<open>size_t\<close>, for
  evaluating the model on concrete datagrams.
\<close>

definition chpp_constants :: ChppConstants where
  "chpp_constants =
     \<lparr>CHPP_HANDLE_NONE = 0, CHPP_HANDLE_LOOPBACK = 1, CHPP_HANDLE_DISCOVERY = 15,
      CHPP_HANDLE_NEGOTIATED_RANGE_START = 16,
      CHPP_MESSAGE_TYPE_CLIENT_REQUEST = 0, CHPP_MESSAGE_TYPE_SERVICE_RESPONSE = 1,
      CHPP_MESSAGE_TYPE_CLIENT_NOTIFICATION = 2, CHPP_MESSAGE_TYPE_SERVICE_NOTIFICATION = 3,
      CHPP_TRANSPORT_ERROR_APPLAYER = 6, SIZE_MAX = 4294967295, sizeof_ChppAppHeader = 6\<rparr>"

subsection \<open>Data\<close>

type_synonym pointer = nat

text \<open>
  \<^verbatim>\<open>struct ChppService\<close>, with the three members the C file reads. A dispatch function
  pointer is \<open>None\<close> when it is \<^verbatim>\<open>NULL\<close>, otherwise the address of the function.
\<close>

record ChppService =
  minLength :: nat
  requestDispatchFunctionPtr :: "pointer option"
  notificationDispatchFunctionPtr :: "pointer option"

text \<open>
  \<^verbatim>\<open>struct ChppAppState\<close>. \<open>registeredServices\<close> is the array of pointers to service
  descriptors: the list has one entry for each slot of the array, and a slot that holds
  \<^verbatim>\<open>NULL\<close> (as every slot does after the \<^verbatim>\<open>memset\<close> of \<^verbatim>\<open>chppAppInit\<close>) is \<open>None\<close>.
\<close>

record ChppAppState =
  transportContext :: pointer
  registeredServiceCount :: nat
  registeredServices :: "ChppService option list"

text \<open>
  Modelled from the spec: the declaration of \<^verbatim>\<open>struct ChppAppHeader\<close> is not among the
  sources. The header is the prefix of every datagram and holds, in this order, the
  handle (unsigned, 8 bits), the message type and the transaction identifier; the C file
  prints all three as 8-bit values. The datagram is given as in C: the memory, the
  address \<open>buf\<close> of its first byte, and its length \<open>len\<close>, which the memory does not
  know about. The function is handed no more than the pointer and the length, and what
  lies behind the pointer beyond the length is the caller's: a read of a header field at
  an offset that the length does not cover returns the byte that the memory holds there,
  and the model does not say whether that byte may be read. A statement below that
  depends on a field other than the handle therefore says, where the length validator
  does not already ensure it, that the field is part of the datagram. The registry is
  different: the array, its size and its \<^verbatim>\<open>NULL\<close> slots are state of the application
  layer itself, and a read outside it is a fault.
\<close>

record ChppAppHeader =
  handle :: "8 word"
  type :: "8 word"
  transaction :: "8 word"

definition rxHeader :: "(pointer \<Rightarrow> 8 word) \<Rightarrow> pointer \<Rightarrow> ChppAppHeader" where
  "rxHeader mem buf = \<lparr>handle = mem buf, type = mem (buf + 1), transaction = mem (buf + 2)\<rparr>"

text \<open>
  Modelled from the spec: \<^verbatim>\<open>sizeof_member(struct ChppAppHeader, handle)\<close> and
  \<^verbatim>\<open>sizeof_member(struct ChppAppHeader, type)\<close>, one byte each. The size of the whole
  header is a parameter.
\<close>

definition sizeof_handle :: nat where
  "sizeof_handle = 1"

definition sizeof_type :: nat where
  "sizeof_type = 1"

subsection \<open>Observable actions and undefined operations\<close>

datatype log_message =
    InvalidPredefinedHandle "8 word"
  | DatagramTooShort "8 word" nat
  | InvalidPredefinedServiceRequest "8 word"
  | InvalidPredefinedServiceResponse "8 word"
  | NoClientNotifications "8 word"
  | NoServiceNotifications "8 word"
  | CannotDispatchUnknownType "8 word" "8 word"
  | InvalidHandle "8 word" nat "8 word" "8 word"
  | UnknownTypePredefined "8 word" "8 word" nat "8 word"
  | UnsupportedRxType "8 word" "8 word"

datatype callee =
    chppDispatchNonHandle
  | chppDispatchLoopbackClientRequest
  | chppDispatchDiscoveryClientRequest
  | chppDispatchDiscoveryClient
  | DispatchFunction pointer

text \<open>
  The handlers are external. A call is recorded with its three arguments; the handlers
  are taken to return and to leave the application context as it is.
\<close>

datatype event =
    LOGE log_message
  | chppEnqueueTxErrorDatagram pointer int
  | Call callee ChppAppState pointer nat
  | chppAppProcessDoneCb pointer pointer

datatype fault =
    ArrayIndexOutOfBounds int
  | NullPointerDereference int
  | NoReturnValue

subsection \<open>The private functions\<close>

definition chppProcessPredefinedClientRequest ::
  "ChppConstants \<Rightarrow> ChppAppState \<Rightarrow> (pointer \<Rightarrow> 8 word) \<Rightarrow> pointer \<Rightarrow> nat \<Rightarrow> event list" where
  "chppProcessPredefinedClientRequest K context mem buf len =
     (let h = handle (rxHeader mem buf) in
      if uint h = CHPP_HANDLE_LOOPBACK K
        then [Call chppDispatchLoopbackClientRequest context buf len]
      else if uint h = CHPP_HANDLE_DISCOVERY K
        then [Call chppDispatchDiscoveryClientRequest context buf len]
      else [LOGE (InvalidPredefinedServiceRequest h)])"

definition chppProcessPredefinedServiceResponse ::
  "ChppConstants \<Rightarrow> ChppAppState \<Rightarrow> (pointer \<Rightarrow> 8 word) \<Rightarrow> pointer \<Rightarrow> nat \<Rightarrow> event list" where
  "chppProcessPredefinedServiceResponse K context mem buf len =
     (let h = handle (rxHeader mem buf) in
      if uint h = CHPP_HANDLE_LOOPBACK K
        then []
      else if uint h = CHPP_HANDLE_DISCOVERY K
        then [Call chppDispatchDiscoveryClient context buf len]
      else [LOGE (InvalidPredefinedServiceResponse h)])"

definition chppProcessPredefinedClientNotification ::
  "ChppAppState \<Rightarrow> (pointer \<Rightarrow> 8 word) \<Rightarrow> pointer \<Rightarrow> nat \<Rightarrow> event list" where
  "chppProcessPredefinedClientNotification context mem buf len =
     [LOGE (NoClientNotifications (handle (rxHeader mem buf)))]"

definition chppProcessPredefinedServiceNotification ::
  "ChppAppState \<Rightarrow> (pointer \<Rightarrow> 8 word) \<Rightarrow> pointer \<Rightarrow> nat \<Rightarrow> event list" where
  "chppProcessPredefinedServiceNotification context mem buf len =
     [LOGE (NoServiceNotifications (handle (rxHeader mem buf)))]"

text \<open>
  \<^verbatim>\<open>chppServiceOfHandle(c, h)->member\<close>: the array is indexed with
  \<open>h - CHPP_HANDLE_NEGOTIATED_RANGE_START\<close>, without any check, and the pointer found
  there is dereferenced by the caller. Reading outside the array and dereferencing
  \<^verbatim>\<open>NULL\<close> are undefined in C; the model stops there with the fault.
\<close>

definition chppServiceOfHandle ::
  "ChppConstants \<Rightarrow> ChppAppState \<Rightarrow> 8 word \<Rightarrow> fault + ChppService" where
  "chppServiceOfHandle K appContext h =
     (let i = uint h - CHPP_HANDLE_NEGOTIATED_RANGE_START K in
      if 0 \<le> i \<and> nat i < length (registeredServices appContext)
      then (case registeredServices appContext ! nat i of
              None \<Rightarrow> Inl (NullPointerDereference i)
            | Some service \<Rightarrow> Inr service)
      else Inl (ArrayIndexOutOfBounds i))"

definition chppDatagramLenIsOk ::
  "ChppConstants \<Rightarrow> ChppAppState \<Rightarrow> 8 word \<Rightarrow> nat \<Rightarrow> event list \<times> (fault + bool)" where
  "chppDatagramLenIsOk K context h len =
     (let tooShort = (\<lambda>minLen. if len < minLen then [LOGE (DatagramTooShort h len)] else [])
      in
      if uint h < CHPP_HANDLE_NEGOTIATED_RANGE_START K then
        (if uint h = CHPP_HANDLE_NONE K
           then (tooShort sizeof_handle, Inr (len \<ge> sizeof_handle))
         else if uint h = CHPP_HANDLE_LOOPBACK K
           then (tooShort (sizeof_handle + sizeof_type),
                 Inr (len \<ge> sizeof_handle + sizeof_type))
         else if uint h = CHPP_HANDLE_DISCOVERY K
           then (tooShort (sizeof_ChppAppHeader K), Inr (len \<ge> sizeof_ChppAppHeader K))
         else (LOGE (InvalidPredefinedHandle h) # tooShort (SIZE_MAX K),
               Inr (len \<ge> SIZE_MAX K)))
      else
        (case chppServiceOfHandle K context h of
           Inl f \<Rightarrow> ([], Inl f)
         | Inr service \<Rightarrow> (tooShort (minLength service), Inr (len \<ge> minLength service))))"

text \<open>
  The \<^verbatim>\<open>default\<close> branch of \<^verbatim>\<open>chppGetDispatchFunction\<close> logs, enqueues the transport
  error and then reaches the end of the function without a \<^verbatim>\<open>return\<close>: the caller uses
  a value that was never returned.
\<close>

definition chppGetDispatchFunction ::
  "ChppConstants \<Rightarrow> ChppAppState \<Rightarrow> 8 word \<Rightarrow> 8 word \<Rightarrow>
     event list \<times> (fault + pointer option)" where
  "chppGetDispatchFunction K context h ty =
     (if uint ty = CHPP_MESSAGE_TYPE_CLIENT_REQUEST K then
        (case chppServiceOfHandle K context h of
           Inl f \<Rightarrow> ([], Inl f)
         | Inr service \<Rightarrow> ([], Inr (requestDispatchFunctionPtr service)))
      else if uint ty = CHPP_MESSAGE_TYPE_SERVICE_RESPONSE K then ([], Inr None)
      else if uint ty = CHPP_MESSAGE_TYPE_CLIENT_NOTIFICATION K then
        (case chppServiceOfHandle K context h of
           Inl f \<Rightarrow> ([], Inl f)
         | Inr service \<Rightarrow> ([], Inr (notificationDispatchFunctionPtr service)))
      else if uint ty = CHPP_MESSAGE_TYPE_SERVICE_NOTIFICATION K then ([], Inr None)
      else ([LOGE (CannotDispatchUnknownType ty h),
             chppEnqueueTxErrorDatagram (transportContext context)
               (CHPP_TRANSPORT_ERROR_APPLAYER K)],
            Inl NoReturnValue))"

subsection \<open>The public functions\<close>

text \<open>
  The statement guarded by \<^verbatim>\<open>if (chppDatagramLenIsOk(...))\<close> in
  \<^verbatim>\<open>chppProcessRxDatagram\<close>: the classification of the handle and the routing.
\<close>

definition chppRouteRxDatagram ::
  "ChppConstants \<Rightarrow> ChppAppState \<Rightarrow> (pointer \<Rightarrow> 8 word) \<Rightarrow> pointer \<Rightarrow> nat \<Rightarrow>
     event list \<times> fault option" where
  "chppRouteRxDatagram K context mem buf len =
     (let rx = rxHeader mem buf; h = handle rx; ty = type rx in
      if uint h \<ge> int (registeredServiceCount context) + CHPP_HANDLE_NEGOTIATED_RANGE_START K
        then ([LOGE (InvalidHandle h len ty (transaction rx))], None)
      else if uint h = CHPP_HANDLE_NONE K
        then ([Call chppDispatchNonHandle context buf len], None)
      else if uint h < CHPP_HANDLE_NEGOTIATED_RANGE_START K then
        (if uint ty = CHPP_MESSAGE_TYPE_CLIENT_REQUEST K
           then (chppProcessPredefinedClientRequest K context mem buf len, None)
         else if uint ty = CHPP_MESSAGE_TYPE_CLIENT_NOTIFICATION K
           then (chppProcessPredefinedClientNotification context mem buf len, None)
         else if uint ty = CHPP_MESSAGE_TYPE_SERVICE_RESPONSE K
           then (chppProcessPredefinedServiceResponse K context mem buf len, None)
         else if uint ty = CHPP_MESSAGE_TYPE_SERVICE_NOTIFICATION K
           then (chppProcessPredefinedServiceNotification context mem buf len, None)
         else ([LOGE (UnknownTypePredefined ty h len (transaction rx)),
                chppEnqueueTxErrorDatagram (transportContext context)
                  (CHPP_TRANSPORT_ERROR_APPLAYER K)], None))
      else
        (case chppGetDispatchFunction K context h ty of
           (es, Inl f) \<Rightarrow> (es, Some f)
         | (es, Inr None) \<Rightarrow> (es @ [LOGE (UnsupportedRxType h ty)], None)
         | (es, Inr (Some dispatchFunc)) \<Rightarrow>
             (es @ [Call (DispatchFunction dispatchFunc) context buf len], None)))"

text \<open>
  \<^verbatim>\<open>chppProcessRxDatagram\<close>: the events of the run and the fault that ended it, if any.
  A run that ends in a fault has left the defined behaviour of C, and nothing after the
  fault is part of the model.
\<close>

definition chppProcessRxDatagram ::
  "ChppConstants \<Rightarrow> ChppAppState \<Rightarrow> (pointer \<Rightarrow> 8 word) \<Rightarrow> pointer \<Rightarrow> nat \<Rightarrow>
     event list \<times> fault option" where
  "chppProcessRxDatagram K context mem buf len =
     (case chppDatagramLenIsOk K context (handle (rxHeader mem buf)) len of
        (es, Inl f) \<Rightarrow> (es, Some f)
      | (es, Inr ok) \<Rightarrow>
          (case (if ok then chppRouteRxDatagram K context mem buf len else ([], None)) of
             (es', Some f) \<Rightarrow> (es @ es', Some f)
           | (es', None) \<Rightarrow>
               (es @ es' @ [chppAppProcessDoneCb (transportContext context) buf], None)))"

text \<open>What a run did: the handlers it called, the completion callbacks, the error reports.\<close>

fun is_Call :: "event \<Rightarrow> bool" where
  "is_Call (Call c a b l) = True"
| "is_Call e = False"

fun is_LOGE :: "event \<Rightarrow> bool" where
  "is_LOGE (LOGE m) = True"
| "is_LOGE e = False"

fun is_ProcessDone :: "event \<Rightarrow> bool" where
  "is_ProcessDone (chppAppProcessDoneCb t b) = True"
| "is_ProcessDone e = False"

fun is_EnqueueTxError :: "event \<Rightarrow> bool" where
  "is_EnqueueTxError (chppEnqueueTxErrorDatagram t c) = True"
| "is_EnqueueTxError e = False"

subsection \<open>The identifier formatter\<close>

text \<open>
  \<^verbatim>\<open>sprintf\<close> with the conversion \<^verbatim>\<open>%02x\<close> prints an argument below 256 as two
  hexadecimal digits, in lower case, the high nibble first.
\<close>

definition hex_digit :: "nat \<Rightarrow> char" where
  "hex_digit n = ''0123456789abcdef'' ! n"

definition fmt_02x :: "8 word \<Rightarrow> string" where
  "fmt_02x b = [hex_digit (unat b div 16), hex_digit (unat b mod 16)]"

text \<open>
  \<^verbatim>\<open>chppUuidToStr\<close> reads \<^verbatim>\<open>uuid[0]\<close> to \<^verbatim>\<open>uuid[15]\<close>; the result is the string
  written to \<^verbatim>\<open>strOut\<close>, without the terminating zero. The theorems below are about
  arrays of 16 bytes, the only ones the C function is declared for.
\<close>

definition chppUuidToStr :: "8 word list \<Rightarrow> string" where
  "chppUuidToStr uuid =
     fmt_02x (uuid ! 0) @ fmt_02x (uuid ! 1) @ fmt_02x (uuid ! 2) @ fmt_02x (uuid ! 3) @ ''-'' @
     fmt_02x (uuid ! 4) @ fmt_02x (uuid ! 5) @ ''-'' @
     fmt_02x (uuid ! 6) @ fmt_02x (uuid ! 7) @ ''-'' @
     fmt_02x (uuid ! 8) @ fmt_02x (uuid ! 9) @ ''-'' @
     fmt_02x (uuid ! 10) @ fmt_02x (uuid ! 11) @ fmt_02x (uuid ! 12) @ fmt_02x (uuid ! 13) @
     fmt_02x (uuid ! 14) @ fmt_02x (uuid ! 15)"

text \<open>
  The reading of the specification, to compare the formatter with: the text of a group
  of bytes, and the bytes read back from a string at the sixteen places where the
  canonical form keeps them. Neither is code of the repository.
\<close>

definition hex_bytes :: "8 word list \<Rightarrow> string" where
  "hex_bytes bs = concat (map fmt_02x bs)"

definition hex_value :: "char \<Rightarrow> nat" where
  "hex_value c = (let k = of_char c :: nat in if k \<le> 57 then k - 48 else k - 87)"

definition parse_02x :: "string \<Rightarrow> nat \<Rightarrow> 8 word" where
  "parse_02x s i = of_nat (16 * hex_value (s ! i) + hex_value (s ! (i + 1)))"

definition chppStrToUuid :: "string \<Rightarrow> 8 word list" where
  "chppStrToUuid s =
     map (parse_02x s) [0, 2, 4, 6, 9, 11, 14, 16, 19, 21, 24, 26, 28, 30, 32, 34]"

subsection \<open>Concrete contexts and datagrams\<close>

text \<open>
  A context with one registered service in an array of four slots, a second one whose
  only service takes notifications and no requests, and the memory that holds the given
  bytes from address \<open>buf\<close> on and zero elsewhere.
\<close>

definition example_service :: ChppService where
  "example_service = \<lparr>minLength = 6, requestDispatchFunctionPtr = Some 4096,
                       notificationDispatchFunctionPtr = None\<rparr>"

definition example_context :: ChppAppState where
  "example_context = \<lparr>transportContext = 7, registeredServiceCount = 1,
                       registeredServices = [Some example_service, None, None, None]\<rparr>"

definition notification_service :: ChppService where
  "notification_service = \<lparr>minLength = 6, requestDispatchFunctionPtr = None,
                            notificationDispatchFunctionPtr = Some 8192\<rparr>"

definition notification_context :: ChppAppState where
  "notification_context = \<lparr>transportContext = 7, registeredServiceCount = 1,
                            registeredServices = [Some notification_service, None, None, None]\<rparr>"

definition memory_with :: "pointer \<Rightarrow> 8 word list \<Rightarrow> pointer \<Rightarrow> 8 word" where
  "memory_with buf bs a = (if buf \<le> a \<and> a < buf + length bs then bs ! (a - buf) else 0)"

section \<open>Basic facts\<close>

lemma rxHeader_sel [simp]:
  "handle (rxHeader mem buf) = mem buf"
  "type (rxHeader mem buf) = mem (buf + 1)"
  "transaction (rxHeader mem buf) = mem (buf + 2)"
  by (simp_all add: rxHeader_def)

lemmas example_defs = example_service_def example_context_def notification_service_def
  notification_context_def memory_with_def chpp_constants_def

lemmas run_defs = chppProcessRxDatagram_def chppDatagramLenIsOk_def chppRouteRxDatagram_def
  chppGetDispatchFunction_def chppServiceOfHandle_def
  chppProcessPredefinedClientRequest_def chppProcessPredefinedServiceResponse_def
  chppProcessPredefinedClientNotification_def chppProcessPredefinedServiceNotification_def
  sizeof_handle_def sizeof_type_def

lemma constants_ok_chpp_constants: "constants_ok chpp_constants"
  by (simp add: constants_ok_def chpp_constants_def)

text \<open>The length validator only logs.\<close>

lemma lenok_only_logs:
  "filter is_ProcessDone (fst (chppDatagramLenIsOk K context h len)) = [] \<and>
   filter is_Call (fst (chppDatagramLenIsOk K context h len)) = [] \<and>
   filter is_EnqueueTxError (fst (chppDatagramLenIsOk K context h len)) = []"
  by (simp add: chppDatagramLenIsOk_def Let_def split: sum.split)

lemma getDispatch_no_done:
  "filter is_ProcessDone (fst (chppGetDispatchFunction K context h ty)) = []"
  by (simp add: chppGetDispatchFunction_def split: sum.split)

lemma route_no_done:
  "filter is_ProcessDone (fst (chppRouteRxDatagram K context mem buf len)) = []"
  using getDispatch_no_done [of K "context" "mem buf" "mem (buf + 1)"]
  by (auto simp: chppRouteRxDatagram_def Let_def
      chppProcessPredefinedClientRequest_def chppProcessPredefinedServiceResponse_def
      chppProcessPredefinedClientNotification_def chppProcessPredefinedServiceNotification_def
      split: prod.split sum.split option.split)

text \<open>
  A run that ends without a fault made the completion callback once, as its last action,
  with the transport context and the buffer of the call; a run that ends in a fault did
  not reach it.
\<close>

lemma completed_run:
  assumes "snd (chppProcessRxDatagram K context mem buf len) = None"
  shows "\<exists>es. fst (chppProcessRxDatagram K context mem buf len) =
                es @ [chppAppProcessDoneCb (transportContext context) buf] \<and>
              filter is_ProcessDone es = []"
proof (cases "chppDatagramLenIsOk K context (mem buf) len")
  case (Pair es r)
  note lenok = this
  have es: "filter is_ProcessDone es = []"
    using lenok_only_logs [of K "context" "mem buf" len] lenok by simp
  show ?thesis
  proof (cases r)
    case (Inl f)
    with lenok assms show ?thesis by (simp add: chppProcessRxDatagram_def)
  next
    case (Inr ok)
    show ?thesis
    proof (cases "ok")
      case False
      with lenok Inr es show ?thesis by (simp add: chppProcessRxDatagram_def)
    next
      case True
      obtain es' r' where route: "chppRouteRxDatagram K context mem buf len = (es', r')"
        by (cases "chppRouteRxDatagram K context mem buf len")
      have es': "filter is_ProcessDone es' = []"
        using route_no_done [of K "context" mem buf len] route by simp
      show ?thesis
      proof (cases r')
        case None
        with lenok Inr True route es es' show ?thesis
          by (simp add: chppProcessRxDatagram_def)
      next
        case (Some f)
        with lenok Inr True route assms show ?thesis
          by (simp add: chppProcessRxDatagram_def)
      qed
    qed
  qed
qed

lemma faulted_run:
  assumes "snd (chppProcessRxDatagram K context mem buf len) = Some f"
  shows "filter is_ProcessDone (fst (chppProcessRxDatagram K context mem buf len)) = []"
proof (cases "chppDatagramLenIsOk K context (mem buf) len")
  case (Pair es r)
  note lenok = this
  have es: "filter is_ProcessDone es = []"
    using lenok_only_logs [of K "context" "mem buf" len] lenok by simp
  obtain es' r' where route: "chppRouteRxDatagram K context mem buf len = (es', r')"
    by (cases "chppRouteRxDatagram K context mem buf len")
  have es': "filter is_ProcessDone es' = []"
    using route_no_done [of K "context" mem buf len] route by simp
  show ?thesis
    using assms lenok route es es'
    by (cases r; cases r') (simp_all add: chppProcessRxDatagram_def split: if_splits)
qed

section \<open>The loopback handle\<close>

text \<open>
  C5: for a datagram addressed to the loopback handle with message type Client Request,
  a length of at least the size of the handle field plus the size of the type field makes
  \<^verbatim>\<open>chppProcessRxDatagram\<close> call the loopback request handler with the context, the
  buffer and the length; a shorter datagram is dropped by the length validator, which logs
  it, and the handler is not called. In both cases the completion callback follows.
\<close>

theorem loopback_client_request:
  assumes "constants_ok K"
    and "uint (handle (rxHeader mem buf)) = CHPP_HANDLE_LOOPBACK K"
    and "uint (type (rxHeader mem buf)) = CHPP_MESSAGE_TYPE_CLIENT_REQUEST K"
  shows "chppProcessRxDatagram K context mem buf len =
     (if len \<ge> sizeof_handle + sizeof_type
      then ([Call chppDispatchLoopbackClientRequest context buf len,
             chppAppProcessDoneCb (transportContext context) buf], None)
      else ([LOGE (DatagramTooShort (handle (rxHeader mem buf)) len),
             chppAppProcessDoneCb (transportContext context) buf], None))"
  using assms
  by (auto simp: chppProcessRxDatagram_def chppDatagramLenIsOk_def chppRouteRxDatagram_def
      chppProcessPredefinedClientRequest_def constants_ok_def Let_def)

theorem loopback_client_request_witness:
  "constants_ok chpp_constants \<and>
   uint (handle (rxHeader (memory_with 64 [1, 0, 5]) 64)) = CHPP_HANDLE_LOOPBACK chpp_constants \<and>
   uint (type (rxHeader (memory_with 64 [1, 0, 5]) 64)) =
     CHPP_MESSAGE_TYPE_CLIENT_REQUEST chpp_constants \<and>
   chppProcessRxDatagram chpp_constants example_context (memory_with 64 [1, 0, 5]) 64 3 =
     ([Call chppDispatchLoopbackClientRequest example_context 64 3,
       chppAppProcessDoneCb (transportContext example_context) 64], None) \<and>
   chppProcessRxDatagram chpp_constants example_context (memory_with 64 [1, 0, 5]) 64 1 =
     ([LOGE (DatagramTooShort 1 1),
       chppAppProcessDoneCb (transportContext example_context) 64], None)"
proof -
  have h1: "constants_ok chpp_constants"
    by (rule constants_ok_chpp_constants)
  have h2: "uint (handle (rxHeader (memory_with 64 [1, 0, 5]) 64)) =
              CHPP_HANDLE_LOOPBACK chpp_constants"
    by (simp add: memory_with_def chpp_constants_def)
  have h3: "uint (type (rxHeader (memory_with 64 [1, 0, 5]) 64)) =
              CHPP_MESSAGE_TYPE_CLIENT_REQUEST chpp_constants"
    by (simp add: memory_with_def chpp_constants_def)
  have b: "handle (rxHeader (memory_with 64 [1, 0, 5]) 64) = 1"
    by (simp add: memory_with_def)
  show ?thesis
    using h1 h2 h3 b
      loopback_client_request [OF h1 h2 h3, of example_context 3]
      loopback_client_request [OF h1 h2 h3, of example_context 1]
    by (simp add: sizeof_handle_def sizeof_type_def)
qed

section \<open>Negotiated handles\<close>

text \<open>
  A registered service whose request dispatch pointer is \<^verbatim>\<open>NULL\<close>: a Client Request of
  sufficient length for its handle is not dispatched, it is logged as unsupported.
\<close>

theorem negotiated_client_request_counterexample:
  "CHPP_HANDLE_NEGOTIATED_RANGE_START chpp_constants \<le> uint (16 :: 8 word) \<and>
   uint (16 :: 8 word) < CHPP_HANDLE_NEGOTIATED_RANGE_START chpp_constants +
     int (registeredServiceCount notification_context) \<and>
   registeredServices notification_context ! 0 = Some notification_service \<and>
   minLength notification_service \<le> 6 \<and>
   chppProcessRxDatagram chpp_constants notification_context
       (memory_with 64 [16, 0, 5, 0, 0, 0]) 64 6 =
     ([LOGE (UnsupportedRxType 16 0), chppAppProcessDoneCb 7 64], None)"
  by (simp add: run_defs example_defs)

text \<open>
  C6 (amended): for every negotiated handle \<open>h\<close> with negotiated-range-start \<open>\<le> h <\<close>
  negotiated-range-start + registeredCount whose slot holds a service descriptor, and
  message type Client Request: a datagram shorter than the descriptor's minimum length is
  dropped with the too-short log; a datagram of at least that length is passed, with the
  context, the buffer and the length, to the descriptor's request dispatch function when
  that pointer is not \<^verbatim>\<open>NULL\<close>, and is logged as an unsupported message type, with no
  dispatcher called, when it is \<^verbatim>\<open>NULL\<close>. The completion callback follows in each case.
\<close>

theorem negotiated_client_request:
  assumes "constants_ok K"
    and "CHPP_HANDLE_NEGOTIATED_RANGE_START K \<le> uint (handle (rxHeader mem buf))"
    and "uint (handle (rxHeader mem buf)) <
           CHPP_HANDLE_NEGOTIATED_RANGE_START K + int (registeredServiceCount context)"
    and "nat (uint (handle (rxHeader mem buf)) - CHPP_HANDLE_NEGOTIATED_RANGE_START K)
           < length (registeredServices context)"
    and "registeredServices context !
           nat (uint (handle (rxHeader mem buf)) - CHPP_HANDLE_NEGOTIATED_RANGE_START K)
         = Some service"
    and "uint (type (rxHeader mem buf)) = CHPP_MESSAGE_TYPE_CLIENT_REQUEST K"
  shows "chppProcessRxDatagram K context mem buf len =
           (if len < minLength service
            then ([LOGE (DatagramTooShort (handle (rxHeader mem buf)) len),
                   chppAppProcessDoneCb (transportContext context) buf], None)
            else case requestDispatchFunctionPtr service of
                   Some dispatchFunc \<Rightarrow>
                     ([Call (DispatchFunction dispatchFunc) context buf len,
                       chppAppProcessDoneCb (transportContext context) buf], None)
                 | None \<Rightarrow>
                     ([LOGE (UnsupportedRxType (handle (rxHeader mem buf))
                               (type (rxHeader mem buf))),
                       chppAppProcessDoneCb (transportContext context) buf], None))"
  using assms
  by (auto simp: run_defs constants_ok_def Let_def split: option.splits)

theorem negotiated_client_request_witness:
  "constants_ok chpp_constants \<and>
   CHPP_HANDLE_NEGOTIATED_RANGE_START chpp_constants
     \<le> uint (handle (rxHeader (memory_with 64 [16, 0, 5, 0, 0, 0]) 64)) \<and>
   uint (handle (rxHeader (memory_with 64 [16, 0, 5, 0, 0, 0]) 64)) <
     CHPP_HANDLE_NEGOTIATED_RANGE_START chpp_constants +
       int (registeredServiceCount example_context) \<and>
   nat (uint (handle (rxHeader (memory_with 64 [16, 0, 5, 0, 0, 0]) 64)) -
        CHPP_HANDLE_NEGOTIATED_RANGE_START chpp_constants)
     < length (registeredServices example_context) \<and>
   registeredServices example_context !
     nat (uint (handle (rxHeader (memory_with 64 [16, 0, 5, 0, 0, 0]) 64)) -
          CHPP_HANDLE_NEGOTIATED_RANGE_START chpp_constants) = Some example_service \<and>
   uint (type (rxHeader (memory_with 64 [16, 0, 5, 0, 0, 0]) 64)) =
     CHPP_MESSAGE_TYPE_CLIENT_REQUEST chpp_constants \<and>
   chppProcessRxDatagram chpp_constants example_context
       (memory_with 64 [16, 0, 5, 0, 0, 0]) 64 6 =
     ([Call (DispatchFunction 4096) example_context 64 6,
       chppAppProcessDoneCb (transportContext example_context) 64], None) \<and>
   chppProcessRxDatagram chpp_constants example_context
       (memory_with 64 [16, 0, 5, 0, 0, 0]) 64 5 =
     ([LOGE (DatagramTooShort 16 5),
       chppAppProcessDoneCb (transportContext example_context) 64], None)"
proof -
  have h1: "constants_ok chpp_constants"
    by (rule constants_ok_chpp_constants)
  have h2: "CHPP_HANDLE_NEGOTIATED_RANGE_START chpp_constants
              \<le> uint (handle (rxHeader (memory_with 64 [16, 0, 5, 0, 0, 0]) 64))"
    by (simp add: memory_with_def chpp_constants_def)
  have h3: "uint (handle (rxHeader (memory_with 64 [16, 0, 5, 0, 0, 0]) 64)) <
              CHPP_HANDLE_NEGOTIATED_RANGE_START chpp_constants +
                int (registeredServiceCount example_context)"
    by (simp add: example_defs)
  have h4: "nat (uint (handle (rxHeader (memory_with 64 [16, 0, 5, 0, 0, 0]) 64)) -
                 CHPP_HANDLE_NEGOTIATED_RANGE_START chpp_constants)
              < length (registeredServices example_context)"
    by (simp add: example_defs)
  have h5: "registeredServices example_context !
              nat (uint (handle (rxHeader (memory_with 64 [16, 0, 5, 0, 0, 0]) 64)) -
                   CHPP_HANDLE_NEGOTIATED_RANGE_START chpp_constants) = Some example_service"
    by (simp add: example_context_def memory_with_def chpp_constants_def)
  have h6: "uint (type (rxHeader (memory_with 64 [16, 0, 5, 0, 0, 0]) 64)) =
              CHPP_MESSAGE_TYPE_CLIENT_REQUEST chpp_constants"
    by (simp add: memory_with_def chpp_constants_def)
  have b: "handle (rxHeader (memory_with 64 [16, 0, 5, 0, 0, 0]) 64) = 16"
    by (simp add: memory_with_def)
  have s: "minLength example_service = 6"
          "requestDispatchFunctionPtr example_service = Some 4096"
    by (simp_all add: example_service_def)
  show ?thesis
    using h1 h2 h3 h4 h5 h6 b s
      negotiated_client_request [OF h1 h2 h3 h4 h5 h6, of 6]
      negotiated_client_request [OF h1 h2 h3 h4 h5 h6, of 5]
    by simp
qed

text \<open>
  C7: for every negotiated handle within the registered range, a datagram of sufficient
  length with message type Service Response or Service Notification is dropped by
  \<^verbatim>\<open>chppProcessRxDatagram\<close> with the log line that the handle does not support the Rx
  message type, and no dispatcher is called: the run is that log line and the completion
  callback.
\<close>

theorem negotiated_service_response_dropped:
  assumes "constants_ok K"
    and "CHPP_HANDLE_NEGOTIATED_RANGE_START K \<le> uint (handle (rxHeader mem buf))"
    and "uint (handle (rxHeader mem buf)) <
           CHPP_HANDLE_NEGOTIATED_RANGE_START K + int (registeredServiceCount context)"
    and "nat (uint (handle (rxHeader mem buf)) - CHPP_HANDLE_NEGOTIATED_RANGE_START K)
           < length (registeredServices context)"
    and "registeredServices context !
           nat (uint (handle (rxHeader mem buf)) - CHPP_HANDLE_NEGOTIATED_RANGE_START K)
         = Some service"
    and "minLength service \<le> len"
    and "uint (type (rxHeader mem buf)) = CHPP_MESSAGE_TYPE_SERVICE_RESPONSE K \<or>
         uint (type (rxHeader mem buf)) = CHPP_MESSAGE_TYPE_SERVICE_NOTIFICATION K"
  shows "chppProcessRxDatagram K context mem buf len =
           ([LOGE (UnsupportedRxType (handle (rxHeader mem buf)) (type (rxHeader mem buf))),
             chppAppProcessDoneCb (transportContext context) buf], None) \<and>
         fst (chppGetDispatchFunction K context (handle (rxHeader mem buf))
                (type (rxHeader mem buf))) = [] \<and>
         snd (chppGetDispatchFunction K context (handle (rxHeader mem buf))
                (type (rxHeader mem buf))) = Inr None"
  using assms
  by (auto simp: run_defs constants_ok_def Let_def)

theorem negotiated_service_response_dropped_witness:
  "constants_ok chpp_constants \<and>
   CHPP_HANDLE_NEGOTIATED_RANGE_START chpp_constants
     \<le> uint (handle (rxHeader (memory_with 64 [16, 1, 5, 0, 0, 0]) 64)) \<and>
   uint (handle (rxHeader (memory_with 64 [16, 1, 5, 0, 0, 0]) 64)) <
     CHPP_HANDLE_NEGOTIATED_RANGE_START chpp_constants +
       int (registeredServiceCount example_context) \<and>
   nat (uint (handle (rxHeader (memory_with 64 [16, 1, 5, 0, 0, 0]) 64)) -
        CHPP_HANDLE_NEGOTIATED_RANGE_START chpp_constants)
     < length (registeredServices example_context) \<and>
   registeredServices example_context !
     nat (uint (handle (rxHeader (memory_with 64 [16, 1, 5, 0, 0, 0]) 64)) -
          CHPP_HANDLE_NEGOTIATED_RANGE_START chpp_constants) = Some example_service \<and>
   minLength example_service \<le> 6 \<and>
   uint (type (rxHeader (memory_with 64 [16, 1, 5, 0, 0, 0]) 64)) =
     CHPP_MESSAGE_TYPE_SERVICE_RESPONSE chpp_constants \<and>
   chppProcessRxDatagram chpp_constants example_context
       (memory_with 64 [16, 1, 5, 0, 0, 0]) 64 6 =
     ([LOGE (UnsupportedRxType 16 1),
       chppAppProcessDoneCb (transportContext example_context) 64], None)"
proof -
  have h1: "constants_ok chpp_constants"
    by (rule constants_ok_chpp_constants)
  have h2: "CHPP_HANDLE_NEGOTIATED_RANGE_START chpp_constants
              \<le> uint (handle (rxHeader (memory_with 64 [16, 1, 5, 0, 0, 0]) 64))"
    by (simp add: memory_with_def chpp_constants_def)
  have h3: "uint (handle (rxHeader (memory_with 64 [16, 1, 5, 0, 0, 0]) 64)) <
              CHPP_HANDLE_NEGOTIATED_RANGE_START chpp_constants +
                int (registeredServiceCount example_context)"
    by (simp add: example_defs)
  have h4: "nat (uint (handle (rxHeader (memory_with 64 [16, 1, 5, 0, 0, 0]) 64)) -
                 CHPP_HANDLE_NEGOTIATED_RANGE_START chpp_constants)
              < length (registeredServices example_context)"
    by (simp add: example_defs)
  have h5: "registeredServices example_context !
              nat (uint (handle (rxHeader (memory_with 64 [16, 1, 5, 0, 0, 0]) 64)) -
                   CHPP_HANDLE_NEGOTIATED_RANGE_START chpp_constants) = Some example_service"
    by (simp add: example_context_def memory_with_def chpp_constants_def)
  have h6: "minLength example_service \<le> 6"
    by (simp add: example_service_def)
  have h7: "uint (type (rxHeader (memory_with 64 [16, 1, 5, 0, 0, 0]) 64)) =
              CHPP_MESSAGE_TYPE_SERVICE_RESPONSE chpp_constants"
    by (simp add: memory_with_def chpp_constants_def)
  have b: "handle (rxHeader (memory_with 64 [16, 1, 5, 0, 0, 0]) 64) = 16"
          "type (rxHeader (memory_with 64 [16, 1, 5, 0, 0, 0]) 64) = 1"
    by (simp_all add: memory_with_def)
  show ?thesis
    using h1 h2 h3 h4 h5 h6 h7 b
      negotiated_service_response_dropped [OF h1 h2 h3 h4 h5 h6 disjI1 [OF h7]]
    by simp
qed

section \<open>Predefined handles\<close>

text \<open>
  C8: for every handle below the negotiated range that is none of NONE, loopback and
  discovery, \<^verbatim>\<open>chppProcessRxDatagram\<close> with any message type and any length logs an
  error and drops the datagram: the run starts with the log of the invalid predefined
  handle, logs at least once more, calls no handler and no dispatcher, and ends with the
  completion callback. For every length below \<^verbatim>\<open>SIZE_MAX\<close> the second log is the one of
  the length validator and nothing else happens.
\<close>

theorem invalid_predefined_handle_dropped:
  assumes "uint (handle (rxHeader mem buf)) < CHPP_HANDLE_NEGOTIATED_RANGE_START K"
    and "uint (handle (rxHeader mem buf)) \<noteq> CHPP_HANDLE_NONE K"
    and "uint (handle (rxHeader mem buf)) \<noteq> CHPP_HANDLE_LOOPBACK K"
    and "uint (handle (rxHeader mem buf)) \<noteq> CHPP_HANDLE_DISCOVERY K"
  shows "\<exists>es. chppProcessRxDatagram K context mem buf len =
           (LOGE (InvalidPredefinedHandle (handle (rxHeader mem buf))) # es @
              [chppAppProcessDoneCb (transportContext context) buf], None) \<and>
           es \<noteq> [] \<and> filter is_Call es = [] \<and>
           (len < SIZE_MAX K \<longrightarrow> es = [LOGE (DatagramTooShort (handle (rxHeader mem buf)) len)])"
  using assms
  by (auto simp: run_defs Let_def)

theorem invalid_predefined_handle_dropped_witness:
  "uint (handle (rxHeader (memory_with 64 [5, 0, 9]) 64))
     < CHPP_HANDLE_NEGOTIATED_RANGE_START chpp_constants \<and>
   uint (handle (rxHeader (memory_with 64 [5, 0, 9]) 64)) \<noteq> CHPP_HANDLE_NONE chpp_constants \<and>
   uint (handle (rxHeader (memory_with 64 [5, 0, 9]) 64)) \<noteq> CHPP_HANDLE_LOOPBACK chpp_constants \<and>
   uint (handle (rxHeader (memory_with 64 [5, 0, 9]) 64)) \<noteq> CHPP_HANDLE_DISCOVERY chpp_constants \<and>
   chppProcessRxDatagram chpp_constants example_context (memory_with 64 [5, 0, 9]) 64 3 =
     ([LOGE (InvalidPredefinedHandle 5), LOGE (DatagramTooShort 5 3),
       chppAppProcessDoneCb (transportContext example_context) 64], None)"
proof -
  have h1: "uint (handle (rxHeader (memory_with 64 [5, 0, 9]) 64))
              < CHPP_HANDLE_NEGOTIATED_RANGE_START chpp_constants"
    by (simp add: memory_with_def chpp_constants_def)
  have h2: "uint (handle (rxHeader (memory_with 64 [5, 0, 9]) 64))
              \<noteq> CHPP_HANDLE_NONE chpp_constants"
    by (simp add: memory_with_def chpp_constants_def)
  have h3: "uint (handle (rxHeader (memory_with 64 [5, 0, 9]) 64))
              \<noteq> CHPP_HANDLE_LOOPBACK chpp_constants"
    by (simp add: memory_with_def chpp_constants_def)
  have h4: "uint (handle (rxHeader (memory_with 64 [5, 0, 9]) 64))
              \<noteq> CHPP_HANDLE_DISCOVERY chpp_constants"
    by (simp add: memory_with_def chpp_constants_def)
  have b: "handle (rxHeader (memory_with 64 [5, 0, 9]) 64) = 5"
    by (simp add: memory_with_def)
  have m: "(3 :: nat) < SIZE_MAX chpp_constants"
    by (simp add: chpp_constants_def)
  from invalid_predefined_handle_dropped [OF h1 h2 h3 h4, of example_context 3]
  obtain es where
    "chppProcessRxDatagram chpp_constants example_context (memory_with 64 [5, 0, 9]) 64 3 =
       (LOGE (InvalidPredefinedHandle (handle (rxHeader (memory_with 64 [5, 0, 9]) 64))) # es @
          [chppAppProcessDoneCb (transportContext example_context) 64], None)"
    and "3 < SIZE_MAX chpp_constants \<longrightarrow>
           es = [LOGE (DatagramTooShort (handle (rxHeader (memory_with 64 [5, 0, 9]) 64)) 3)]"
    by blast
  with m b have
    "chppProcessRxDatagram chpp_constants example_context (memory_with 64 [5, 0, 9]) 64 3 =
       ([LOGE (InvalidPredefinedHandle 5), LOGE (DatagramTooShort 5 3),
         chppAppProcessDoneCb (transportContext example_context) 64], None)"
    by simp
  with h1 h2 h3 h4 show ?thesis by simp
qed

section \<open>Unknown message types\<close>

lemma route_unknown_predefined:
  assumes "uint (mem (buf + 1)) \<noteq> CHPP_MESSAGE_TYPE_CLIENT_REQUEST K"
    and "uint (mem (buf + 1)) \<noteq> CHPP_MESSAGE_TYPE_CLIENT_NOTIFICATION K"
    and "uint (mem (buf + 1)) \<noteq> CHPP_MESSAGE_TYPE_SERVICE_RESPONSE K"
    and "uint (mem (buf + 1)) \<noteq> CHPP_MESSAGE_TYPE_SERVICE_NOTIFICATION K"
    and "uint (mem buf) \<noteq> CHPP_HANDLE_NONE K"
    and "uint (mem buf) < CHPP_HANDLE_NEGOTIATED_RANGE_START K"
  shows "chppRouteRxDatagram K context mem buf len =
           ([LOGE (UnknownTypePredefined (mem (buf + 1)) (mem buf) len (mem (buf + 2))),
             chppEnqueueTxErrorDatagram (transportContext context)
               (CHPP_TRANSPORT_ERROR_APPLAYER K)], None)"
  using assms by (simp add: chppRouteRxDatagram_def Let_def)

lemma lenok_predefined_events:
  assumes "uint h < CHPP_HANDLE_NEGOTIATED_RANGE_START K"
    and "uint h \<noteq> CHPP_HANDLE_NONE K"
    and "snd (chppDatagramLenIsOk K context h len) = Inr True"
  shows "chppDatagramLenIsOk K context h len =
           (if uint h = CHPP_HANDLE_LOOPBACK K \<or> uint h = CHPP_HANDLE_DISCOVERY K then []
            else [LOGE (InvalidPredefinedHandle h)], Inr True)"
  using assms by (simp add: chppDatagramLenIsOk_def split: if_splits)

text \<open>
  A datagram for the handle NONE with a message type outside the four variants passes
  the length check and is handed to \<^verbatim>\<open>chppDispatchNonHandle\<close>: a handler is called and
  no transport error is enqueued.
\<close>

theorem unknown_type_error_counterexample:
  "uint (9 :: 8 word) \<noteq> CHPP_MESSAGE_TYPE_CLIENT_REQUEST chpp_constants \<and>
   uint (9 :: 8 word) \<noteq> CHPP_MESSAGE_TYPE_CLIENT_NOTIFICATION chpp_constants \<and>
   uint (9 :: 8 word) \<noteq> CHPP_MESSAGE_TYPE_SERVICE_RESPONSE chpp_constants \<and>
   uint (9 :: 8 word) \<noteq> CHPP_MESSAGE_TYPE_SERVICE_NOTIFICATION chpp_constants \<and>
   chppDatagramLenIsOk chpp_constants example_context 0 6 = ([], Inr True) \<and>
   chppProcessRxDatagram chpp_constants example_context
       (memory_with 64 [0, 9, 5, 0, 0, 0]) 64 6 =
     ([Call chppDispatchNonHandle example_context 64 6, chppAppProcessDoneCb 7 64], None)"
  by (simp add: run_defs example_defs)

text \<open>
  C4 (amended): for every datagram whose message-type value is outside the four defined
  variants, whose handle is a predefined handle other than NONE (it lies below the
  negotiated range), that passes the length check and is long enough to hold the
  transaction identifier (at least three bytes, so that every header field the branch
  reads is part of the datagram), \<^verbatim>\<open>chppProcessRxDatagram\<close> logs the error with type,
  handle, length and transaction, makes exactly one call to
  \<^verbatim>\<open>chppEnqueueTxErrorDatagram\<close>, with the transport context and the application-layer
  error code, calls no handler, and ends with the completion callback. Before that the
  length validator has logged nothing for loopback and discovery, and the invalid handle
  for any other predefined handle.
\<close>

theorem unknown_type_error:
  assumes "uint (type (rxHeader mem buf)) \<noteq> CHPP_MESSAGE_TYPE_CLIENT_REQUEST K"
    and "uint (type (rxHeader mem buf)) \<noteq> CHPP_MESSAGE_TYPE_CLIENT_NOTIFICATION K"
    and "uint (type (rxHeader mem buf)) \<noteq> CHPP_MESSAGE_TYPE_SERVICE_RESPONSE K"
    and "uint (type (rxHeader mem buf)) \<noteq> CHPP_MESSAGE_TYPE_SERVICE_NOTIFICATION K"
    and "uint (handle (rxHeader mem buf)) \<noteq> CHPP_HANDLE_NONE K"
    and "uint (handle (rxHeader mem buf)) < CHPP_HANDLE_NEGOTIATED_RANGE_START K"
    and "2 < len"
    and "snd (chppDatagramLenIsOk K context (handle (rxHeader mem buf)) len) = Inr True"
  shows "chppProcessRxDatagram K context mem buf len =
           ((if uint (handle (rxHeader mem buf)) = CHPP_HANDLE_LOOPBACK K \<or>
                uint (handle (rxHeader mem buf)) = CHPP_HANDLE_DISCOVERY K then []
             else [LOGE (InvalidPredefinedHandle (handle (rxHeader mem buf)))]) @
            [LOGE (UnknownTypePredefined (type (rxHeader mem buf)) (handle (rxHeader mem buf))
                     len (transaction (rxHeader mem buf))),
             chppEnqueueTxErrorDatagram (transportContext context)
               (CHPP_TRANSPORT_ERROR_APPLAYER K),
             chppAppProcessDoneCb (transportContext context) buf], None) \<and>
         filter is_EnqueueTxError (fst (chppProcessRxDatagram K context mem buf len)) =
           [chppEnqueueTxErrorDatagram (transportContext context)
              (CHPP_TRANSPORT_ERROR_APPLAYER K)] \<and>
         filter is_Call (fst (chppProcessRxDatagram K context mem buf len)) = []"
proof -
  have lenok: "chppDatagramLenIsOk K context (mem buf) len =
           (if uint (mem buf) = CHPP_HANDLE_LOOPBACK K \<or> uint (mem buf) = CHPP_HANDLE_DISCOVERY K
            then [] else [LOGE (InvalidPredefinedHandle (mem buf))], Inr True)"
    using assms(5,6,8) by (simp add: lenok_predefined_events)
  have route: "chppRouteRxDatagram K context mem buf len =
           ([LOGE (UnknownTypePredefined (mem (buf + 1)) (mem buf) len (mem (buf + 2))),
             chppEnqueueTxErrorDatagram (transportContext context)
               (CHPP_TRANSPORT_ERROR_APPLAYER K)], None)"
    using assms(1-6) by (simp add: route_unknown_predefined)
  show ?thesis
    using lenok route by (simp add: chppProcessRxDatagram_def)
qed

theorem unknown_type_error_witness:
  "uint (type (rxHeader (memory_with 64 [1, 9, 5]) 64))
     \<noteq> CHPP_MESSAGE_TYPE_CLIENT_REQUEST chpp_constants \<and>
   uint (type (rxHeader (memory_with 64 [1, 9, 5]) 64))
     \<noteq> CHPP_MESSAGE_TYPE_CLIENT_NOTIFICATION chpp_constants \<and>
   uint (type (rxHeader (memory_with 64 [1, 9, 5]) 64))
     \<noteq> CHPP_MESSAGE_TYPE_SERVICE_RESPONSE chpp_constants \<and>
   uint (type (rxHeader (memory_with 64 [1, 9, 5]) 64))
     \<noteq> CHPP_MESSAGE_TYPE_SERVICE_NOTIFICATION chpp_constants \<and>
   uint (handle (rxHeader (memory_with 64 [1, 9, 5]) 64)) \<noteq> CHPP_HANDLE_NONE chpp_constants \<and>
   uint (handle (rxHeader (memory_with 64 [1, 9, 5]) 64))
     < CHPP_HANDLE_NEGOTIATED_RANGE_START chpp_constants \<and>
   (2 :: nat) < 3 \<and>
   snd (chppDatagramLenIsOk chpp_constants example_context
          (handle (rxHeader (memory_with 64 [1, 9, 5]) 64)) 3) = Inr True \<and>
   chppProcessRxDatagram chpp_constants example_context (memory_with 64 [1, 9, 5]) 64 3 =
     ([LOGE (UnknownTypePredefined 9 1 3 5), chppEnqueueTxErrorDatagram 7 6,
       chppAppProcessDoneCb 7 64], None)"
proof -
  have h1: "uint (type (rxHeader (memory_with 64 [1, 9, 5]) 64))
              \<noteq> CHPP_MESSAGE_TYPE_CLIENT_REQUEST chpp_constants"
    by (simp add: memory_with_def chpp_constants_def)
  have h2: "uint (type (rxHeader (memory_with 64 [1, 9, 5]) 64))
              \<noteq> CHPP_MESSAGE_TYPE_CLIENT_NOTIFICATION chpp_constants"
    by (simp add: memory_with_def chpp_constants_def)
  have h3: "uint (type (rxHeader (memory_with 64 [1, 9, 5]) 64))
              \<noteq> CHPP_MESSAGE_TYPE_SERVICE_RESPONSE chpp_constants"
    by (simp add: memory_with_def chpp_constants_def)
  have h4: "uint (type (rxHeader (memory_with 64 [1, 9, 5]) 64))
              \<noteq> CHPP_MESSAGE_TYPE_SERVICE_NOTIFICATION chpp_constants"
    by (simp add: memory_with_def chpp_constants_def)
  have h5: "uint (handle (rxHeader (memory_with 64 [1, 9, 5]) 64))
              \<noteq> CHPP_HANDLE_NONE chpp_constants"
    by (simp add: memory_with_def chpp_constants_def)
  have h6: "uint (handle (rxHeader (memory_with 64 [1, 9, 5]) 64))
              < CHPP_HANDLE_NEGOTIATED_RANGE_START chpp_constants"
    by (simp add: memory_with_def chpp_constants_def)
  have h7: "(2 :: nat) < 3"
    by simp
  have h8: "snd (chppDatagramLenIsOk chpp_constants example_context
                   (handle (rxHeader (memory_with 64 [1, 9, 5]) 64)) 3) = Inr True"
    by (simp add: chppDatagramLenIsOk_def sizeof_handle_def sizeof_type_def
        memory_with_def chpp_constants_def)
  have b: "handle (rxHeader (memory_with 64 [1, 9, 5]) 64) = 1"
          "type (rxHeader (memory_with 64 [1, 9, 5]) 64) = 9"
          "transaction (rxHeader (memory_with 64 [1, 9, 5]) 64) = 5"
          "transportContext example_context = 7"
          "CHPP_TRANSPORT_ERROR_APPLAYER chpp_constants = 6"
          "CHPP_HANDLE_LOOPBACK chpp_constants = 1"
    by (simp_all add: example_defs)
  from unknown_type_error [OF h1 h2 h3 h4 h5 h6 h7 h8]
  have "chppProcessRxDatagram chpp_constants example_context (memory_with 64 [1, 9, 5]) 64 3 =
          ([LOGE (UnknownTypePredefined 9 1 3 5), chppEnqueueTxErrorDatagram 7 6,
            chppAppProcessDoneCb 7 64], None)"
    using b by simp
  with h1 h2 h3 h4 h5 h6 h7 h8 show ?thesis
    by (intro conjI)
qed

section \<open>The handle is read first\<close>

text \<open>
  C10: \<^verbatim>\<open>chppProcessRxDatagram\<close> reads the handle field, the first byte of the buffer,
  on every call, before any length validation: whatever the length, the run begins with
  the run of the length validator on the byte at \<open>buf\<close>, and is over with the completion
  callback when the validator refuses. In particular a call with length 0 still reads that
  byte, and the length check is made for the handle it holds: for a predefined handle the
  too-short log of the call with length 0 shows the byte.
\<close>

theorem handle_read_before_length_check:
  "handle (rxHeader mem buf) = mem buf \<and>
   (case chppDatagramLenIsOk K context (mem buf) len of
      (es, Inl f) \<Rightarrow> chppProcessRxDatagram K context mem buf len = (es, Some f)
    | (es, Inr ok) \<Rightarrow>
        if ok then \<exists>rest. fst (chppProcessRxDatagram K context mem buf len) = es @ rest
        else chppProcessRxDatagram K context mem buf len =
               (es @ [chppAppProcessDoneCb (transportContext context) buf], None)) \<and>
   (uint (mem buf) < CHPP_HANDLE_NEGOTIATED_RANGE_START K \<and> 0 < sizeof_ChppAppHeader K \<and>
    0 < SIZE_MAX K \<longrightarrow>
      LOGE (DatagramTooShort (mem buf) 0)
        \<in> set (fst (chppProcessRxDatagram K context mem buf 0)))"
proof (intro conjI impI)
  show "handle (rxHeader mem buf) = mem buf" by simp
  show "case chppDatagramLenIsOk K context (mem buf) len of
      (es, Inl f) \<Rightarrow> chppProcessRxDatagram K context mem buf len = (es, Some f)
    | (es, Inr ok) \<Rightarrow>
        if ok then \<exists>rest. fst (chppProcessRxDatagram K context mem buf len) = es @ rest
        else chppProcessRxDatagram K context mem buf len =
               (es @ [chppAppProcessDoneCb (transportContext context) buf], None)"
    by (simp add: chppProcessRxDatagram_def split: prod.split sum.split option.split)
next
  assume "uint (mem buf) < CHPP_HANDLE_NEGOTIATED_RANGE_START K \<and> 0 < sizeof_ChppAppHeader K \<and>
    0 < SIZE_MAX K"
  then show "LOGE (DatagramTooShort (mem buf) 0)
               \<in> set (fst (chppProcessRxDatagram K context mem buf 0))"
    by (simp add: chppProcessRxDatagram_def chppDatagramLenIsOk_def sizeof_handle_def
        sizeof_type_def)
qed

theorem handle_read_before_length_check_witness:
  "uint (memory_with 64 [5] 64) < CHPP_HANDLE_NEGOTIATED_RANGE_START chpp_constants \<and>
   0 < sizeof_ChppAppHeader chpp_constants \<and> 0 < SIZE_MAX chpp_constants \<and>
   LOGE (DatagramTooShort 5 0)
     \<in> set (fst (chppProcessRxDatagram chpp_constants example_context
                    (memory_with 64 [5]) 64 0))"
proof -
  have h: "uint (memory_with 64 [5] 64) < CHPP_HANDLE_NEGOTIATED_RANGE_START chpp_constants \<and>
           0 < sizeof_ChppAppHeader chpp_constants \<and> 0 < SIZE_MAX chpp_constants"
    by (simp add: memory_with_def chpp_constants_def)
  have b: "memory_with 64 [5] 64 = 5"
    by (simp add: memory_with_def)
  from handle_read_before_length_check [of "memory_with 64 [5]" 64 chpp_constants example_context 0]
  have "uint (memory_with 64 [5] 64) < CHPP_HANDLE_NEGOTIATED_RANGE_START chpp_constants \<and>
        0 < sizeof_ChppAppHeader chpp_constants \<and> 0 < SIZE_MAX chpp_constants \<longrightarrow>
        LOGE (DatagramTooShort (memory_with 64 [5] 64) 0)
          \<in> set (fst (chppProcessRxDatagram chpp_constants example_context
                         (memory_with 64 [5]) 64 0))"
    by (rule conjunct2 [THEN conjunct2])
  with h b show ?thesis by simp
qed

section \<open>Handles beyond the registered services\<close>

text \<open>
  C1: a datagram for handle 17, when one service is registered (handles from 16 on are
  negotiated), lies beyond the registered services. \<^verbatim>\<open>chppProcessRxDatagram\<close> does not
  log an addressing error: its first step, the length validator, looks the handle up in
  the registry, finds the \<^verbatim>\<open>NULL\<close> pointer of the unused slot 1 and dereferences it.
\<close>

theorem unregistered_handle_no_addressing_error:
  "int (registeredServiceCount example_context) +
     CHPP_HANDLE_NEGOTIATED_RANGE_START chpp_constants \<le> uint (17 :: 8 word) \<and>
   chppProcessRxDatagram chpp_constants example_context
       (memory_with 64 [17, 0, 5, 0, 0, 0]) 64 6 =
     ([], Some (NullPointerDereference 1))"
  by (simp add: run_defs example_defs)

text \<open>
  C2: for a datagram with handle 255 the registry is read outside the array, and for a
  registered negotiated handle with a message type outside the four variants the caller
  uses the value of a call that returned none. Both runs leave the defined behaviour of
  C before the completion callback, which they do not reach.
\<close>

theorem completion_callback_not_reached:
  "chppProcessRxDatagram chpp_constants example_context
       (memory_with 64 [255, 0, 5, 0, 0, 0]) 64 6 =
     ([], Some (ArrayIndexOutOfBounds 239)) \<and>
   chppProcessRxDatagram chpp_constants example_context
       (memory_with 64 [16, 9, 5, 0, 0, 0]) 64 6 =
     ([LOGE (CannotDispatchUnknownType 9 16), chppEnqueueTxErrorDatagram 7 6],
      Some NoReturnValue)"
  by (simp add: run_defs example_defs)

text \<open>
  C3: the length validator calls the registry lookup for every handle from the start of
  the negotiated range on, before \<^verbatim>\<open>chppProcessRxDatagram\<close> compares the handle with the
  number of registered services. With one registered service and handle 18 the index is
  2, outside the registered entries.
\<close>

theorem lookup_before_range_check:
  "CHPP_HANDLE_NEGOTIATED_RANGE_START chpp_constants +
     int (registeredServiceCount example_context) \<le> uint (18 :: 8 word) \<and>
   chppServiceOfHandle chpp_constants example_context 18 = Inl (NullPointerDereference 2) \<and>
   chppDatagramLenIsOk chpp_constants example_context 18 6 =
     ([], Inl (NullPointerDereference 2))"
  by (simp add: chppDatagramLenIsOk_def chppServiceOfHandle_def example_defs)

section \<open>The identifier formatter is canonical and injective\<close>

lemma lt16_cases: "n < 16 \<Longrightarrow> n \<in> {0, 1, 2, 3, 4, 5, 6, 7, 8, 9, 10, 11, 12, 13, 14, 15 :: nat}"
  by simp presburger

lemma hex_value_digit: "n < 16 \<Longrightarrow> hex_value (hex_digit n) = n"
  by (drule lt16_cases) (auto simp: hex_value_def hex_digit_def)

lemma hex_digit_lower: "n < 16 \<Longrightarrow> hex_digit n \<in> set ''0123456789abcdef''"
  by (drule lt16_cases) (auto simp: hex_digit_def)

lemma byte_nibbles: "unat (b :: 8 word) div 16 < 16"
proof -
  have "unat b < 256" using unsigned_less [of b, where 'a = nat] by simp
  then show ?thesis by simp
qed

lemma parse_fmt:
  assumes "s ! i = hex_digit (unat b div 16)" and "s ! (i + 1) = hex_digit (unat b mod 16)"
  shows "parse_02x s i = b"
  using assms byte_nibbles [of b] by (simp add: parse_02x_def hex_value_digit)

lemma fmt_02x_chars: "c \<in> set (fmt_02x b) \<Longrightarrow> c \<in> set ''0123456789abcdef''"
  using hex_digit_lower [OF byte_nibbles [of b]] hex_digit_lower [of "unat b mod 16"]
  by (auto simp: fmt_02x_def)

lemma hex_bytes_chars: "c \<in> set (hex_bytes bs) \<Longrightarrow> c \<in> set ''0123456789abcdef''"
proof (induction bs)
  case Nil
  then show ?case by (simp add: hex_bytes_def)
next
  case (Cons b bs)
  from Cons.prems have "c \<in> set (fmt_02x b) \<or> c \<in> set (hex_bytes bs)"
    by (simp add: hex_bytes_def)
  then show ?case
  proof
    assume "c \<in> set (fmt_02x b)"
    then show ?thesis by (rule fmt_02x_chars)
  next
    assume "c \<in> set (hex_bytes bs)"
    then show ?thesis by (rule Cons.IH)
  qed
qed

lemma hex_bytes_length: "length (hex_bytes bs) = 2 * length bs"
  unfolding hex_bytes_def by (induction bs) (simp_all add: fmt_02x_def)

lemma list16:
  assumes "length (xs :: 'a list) = 16"
  obtains a0 a1 a2 a3 a4 a5 a6 a7 a8 a9 a10 a11 a12 a13 a14 a15
  where "xs = [a0, a1, a2, a3, a4, a5, a6, a7, a8, a9, a10, a11, a12, a13, a14, a15]"
  using assms by (auto simp: numeral_eq_Suc length_Suc_conv)

lemma uuid_roundtrip:
  assumes "length uuid = 16"
  shows "chppStrToUuid (chppUuidToStr uuid) = uuid"
proof -
  from assms obtain a0 a1 a2 a3 a4 a5 a6 a7 a8 a9 a10 a11 a12 a13 a14 a15
    where u: "uuid = [a0, a1, a2, a3, a4, a5, a6, a7, a8, a9, a10, a11, a12, a13, a14, a15]"
    by (rule list16)
  show ?thesis
    unfolding u chppStrToUuid_def chppUuidToStr_def
    by (simp add: fmt_02x_def parse_fmt)
qed

lemma uuid_groups:
  assumes "length uuid = 16"
  shows "chppUuidToStr uuid =
           hex_bytes (take 4 uuid) @ ''-'' @ hex_bytes (take 2 (drop 4 uuid)) @ ''-'' @
           hex_bytes (take 2 (drop 6 uuid)) @ ''-'' @ hex_bytes (take 2 (drop 8 uuid)) @ ''-'' @
           hex_bytes (drop 10 uuid)"
proof -
  from assms obtain a0 a1 a2 a3 a4 a5 a6 a7 a8 a9 a10 a11 a12 a13 a14 a15
    where u: "uuid = [a0, a1, a2, a3, a4, a5, a6, a7, a8, a9, a10, a11, a12, a13, a14, a15]"
    by (rule list16)
  show ?thesis
    unfolding u chppUuidToStr_def hex_bytes_def by simp
qed

lemma uuid_chars:
  assumes "length uuid = 16" and "c \<in> set (chppUuidToStr uuid)"
  shows "c = CHR ''-'' \<or> c \<in> set ''0123456789abcdef''"
proof -
  from assms(2) have
    "c \<in> set (hex_bytes (take 4 uuid)) \<or> c \<in> set (hex_bytes (take 2 (drop 4 uuid))) \<or>
     c \<in> set (hex_bytes (take 2 (drop 6 uuid))) \<or> c \<in> set (hex_bytes (take 2 (drop 8 uuid))) \<or>
     c \<in> set (hex_bytes (drop 10 uuid)) \<or> c = CHR ''-''"
    unfolding uuid_groups [OF assms(1)] by auto
  then show ?thesis
    using hex_bytes_chars [of c] by blast
qed

text \<open>
  C9: \<^verbatim>\<open>chppUuidToStr\<close> is a function of its input, and for every input of 16 bytes it
  produces the dashed string of 36 characters made of the lower-case hexadecimal text of
  bytes 0 to 3, 4 to 5, 6 to 7, 8 to 9 and 10 to 15, in this order, with nothing but
  dashes and lower-case hexadecimal digits in it; the bytes are read back from the
  string, so two inputs of 16 bytes with the same string are equal.
\<close>

theorem chppUuidToStr_canonical:
  assumes "length uuid = 16"
  shows "chppUuidToStr uuid =
           hex_bytes (take 4 uuid) @ ''-'' @ hex_bytes (take 2 (drop 4 uuid)) @ ''-'' @
           hex_bytes (take 2 (drop 6 uuid)) @ ''-'' @ hex_bytes (take 2 (drop 8 uuid)) @ ''-'' @
           hex_bytes (drop 10 uuid) \<and>
         length (chppUuidToStr uuid) = 36 \<and>
         (\<forall>c \<in> set (chppUuidToStr uuid). c = CHR ''-'' \<or> c \<in> set ''0123456789abcdef'') \<and>
         chppStrToUuid (chppUuidToStr uuid) = uuid \<and>
         (\<forall>other. length other = 16 \<and> chppUuidToStr other = chppUuidToStr uuid
            \<longrightarrow> other = uuid)"
proof (intro conjI allI impI ballI)
  show "chppUuidToStr uuid =
           hex_bytes (take 4 uuid) @ ''-'' @ hex_bytes (take 2 (drop 4 uuid)) @ ''-'' @
           hex_bytes (take 2 (drop 6 uuid)) @ ''-'' @ hex_bytes (take 2 (drop 8 uuid)) @ ''-'' @
           hex_bytes (drop 10 uuid)"
    using assms by (rule uuid_groups)
  then show "length (chppUuidToStr uuid) = 36"
    using assms by (simp add: hex_bytes_length)
  show "chppStrToUuid (chppUuidToStr uuid) = uuid"
    using assms by (rule uuid_roundtrip)
next
  fix c
  assume "c \<in> set (chppUuidToStr uuid)"
  with assms show "c = CHR ''-'' \<or> c \<in> set ''0123456789abcdef''"
    by (rule uuid_chars)
next
  fix other
  assume o: "length other = 16 \<and> chppUuidToStr other = chppUuidToStr uuid"
  then have "length other = 16" by (rule conjunct1)
  then have "other = chppStrToUuid (chppUuidToStr other)"
    by (rule uuid_roundtrip [symmetric])
  also have "\<dots> = chppStrToUuid (chppUuidToStr uuid)"
    using o by (rule conjunct2 [THEN arg_cong])
  also have "\<dots> = uuid"
    using assms by (rule uuid_roundtrip)
  finally show "other = uuid" .
qed

theorem chppUuidToStr_canonical_witness:
  "length [0x12, 0x34, 0x56, 0x78, 0x9a, 0xbc, 0xde, 0xf0, 0x01, 0x23, 0x45, 0x67,
           0x89, 0xab, 0xcd, 0xef :: 8 word] = 16 \<and>
   chppUuidToStr [0x12, 0x34, 0x56, 0x78, 0x9a, 0xbc, 0xde, 0xf0, 0x01, 0x23, 0x45, 0x67,
                  0x89, 0xab, 0xcd, 0xef] = ''12345678-9abc-def0-0123-456789abcdef'' \<and>
   chppStrToUuid ''12345678-9abc-def0-0123-456789abcdef'' =
     [0x12, 0x34, 0x56, 0x78, 0x9a, 0xbc, 0xde, 0xf0, 0x01, 0x23, 0x45, 0x67,
      0x89, 0xab, 0xcd, 0xef]"
proof -
  have l: "length [0x12, 0x34, 0x56, 0x78, 0x9a, 0xbc, 0xde, 0xf0, 0x01, 0x23, 0x45, 0x67,
                   0x89, 0xab, 0xcd, 0xef :: 8 word] = 16"
    by simp
  have e: "chppUuidToStr [0x12, 0x34, 0x56, 0x78, 0x9a, 0xbc, 0xde, 0xf0, 0x01, 0x23, 0x45,
                          0x67, 0x89, 0xab, 0xcd, 0xef] =
             ''12345678-9abc-def0-0123-456789abcdef''"
    by (simp add: chppUuidToStr_def fmt_02x_def hex_digit_def)
  from chppUuidToStr_canonical [OF l]
  have "chppStrToUuid (chppUuidToStr [0x12, 0x34, 0x56, 0x78, 0x9a, 0xbc, 0xde, 0xf0, 0x01,
                                       0x23, 0x45, 0x67, 0x89, 0xab, 0xcd, 0xef]) =
          [0x12, 0x34, 0x56, 0x78, 0x9a, 0xbc, 0xde, 0xf0, 0x01, 0x23, 0x45, 0x67,
           0x89, 0xab, 0xcd, 0xef]"
    by (rule conjunct2 [THEN conjunct2, THEN conjunct2, THEN conjunct1])
  then have "chppStrToUuid ''12345678-9abc-def0-0123-456789abcdef'' =
          [0x12, 0x34, 0x56, 0x78, 0x9a, 0xbc, 0xde, 0xf0, 0x01, 0x23, 0x45, 0x67,
           0x89, 0xab, 0xcd, 0xef]"
    unfolding e .
  with l e show ?thesis by (intro conjI)
qed

end
